theory Spec2Isabelle
  imports Complex_Main
begin

section \<open>Numbers and the Math library\<close>

text \<open>
  The circuit geometry engine computes on JavaScript numbers. They are modelled as
  real numbers: arithmetic is exact, and there is no rounding, no NaN, no infinity and
  no negative zero. The one literal that is written out as the double it denotes is the
  \<open>0.8\<close> of the speed factor, where the bound of the speed factor depends on it. \<open>Math.sin\<close>, \<open>Math.cos\<close>, \<open>Math.sqrt\<close>, \<open>Math.abs\<close>,
  \<open>Math.min\<close>, \<open>Math.max\<close> and \<open>Math.PI\<close> are the functions and the constant of
  the same name in HOL. \<open>Math.sqrt\<close> of a negative number is NaN, where \<open>sqrt\<close> of
  HOL is odd; the engine takes the square root of a sum of squares, and of the
  haversine terms \<open>a\<close> and \<open>1 - a\<close>.
\<close>

text \<open>\<open>Math.hypot(a, b)\<close>: the square root of the sum of the squares.\<close>

definition hypot :: "real \<Rightarrow> real \<Rightarrow> real" where
  "hypot a b = sqrt (a\<^sup>2 + b\<^sup>2)"

text \<open>
  \<open>Math.atan2(y, x)\<close>: the angle of the point \<open>(x, y)\<close>, in \<open>(-\<pi>, \<pi>]\<close>, with
  \<open>Math.atan2(0, 0) = 0\<close>.
\<close>

definition atan2 :: "real \<Rightarrow> real \<Rightarrow> real" where
  "atan2 y x =
     (if 0 < x then arctan (y / x)
      else if x < 0 then (if 0 \<le> y then arctan (y / x) + pi else arctan (y / x) - pi)
      else if 0 < y then pi / 2
      else if y < 0 then - (pi / 2)
      else 0)"

text \<open>
  A template literal \<open>${i}\<close> of a loop counter prints it in decimal.
\<close>

fun string_of_nat :: "nat \<Rightarrow> string" where
  "string_of_nat n =
     (if n < 10 then [''0123456789'' ! n]
      else string_of_nat (n div 10) @ [''0123456789'' ! (n mod 10)])"

declare string_of_nat.simps [simp del]

section \<open>GeometryEngine\<close>

text \<open>A planar point \<open>{x, y}\<close> and a geodetic point \<open>{lat, lng}\<close>.\<close>

record Point =
  px :: real
  py :: real

record LatLng =
  lat :: real
  lng :: real

text \<open>The Earth radius in meters.\<close>

definition R :: real where
  "R = 6371000"

definition getDistanceMeters :: "real \<Rightarrow> real \<Rightarrow> real \<Rightarrow> real \<Rightarrow> real" where
  "getDistanceMeters lat1 lon1 lat2 lon2 =
     (let dLat = (lat2 - lat1) * pi / 180;
          dLon = (lon2 - lon1) * pi / 180;
          a = sin (dLat / 2) * sin (dLat / 2) +
              cos (lat1 * pi / 180) * cos (lat2 * pi / 180) *
              sin (dLon / 2) * sin (dLon / 2);
          c = 2 * atan2 (sqrt a) (sqrt (1 - a))
      in R * c)"

definition latLonToMeters :: "real \<Rightarrow> real \<Rightarrow> real \<Rightarrow> real \<Rightarrow> Point" where
  "latLonToMeters lt lon originLat originLon =
     (let x = getDistanceMeters originLat originLon originLat lon;
          y = getDistanceMeters originLat originLon lt originLon
      in \<lparr>px = (if lon > originLon then x else - x),
          py = (if lt > originLat then y else - y)\<rparr>)"

text \<open>
  The distance between the points at indices \<open>i - 1\<close> and \<open>i\<close>, as both loops of the
  engine compute it.
\<close>

definition seg_dist :: "Point list \<Rightarrow> nat \<Rightarrow> real" where
  "seg_dist points i =
     hypot (px (points ! i) - px (points ! (i - 1))) (py (points ! i) - py (points ! (i - 1)))"

text \<open>
  \<open>calculateCircuitLength\<close>: the loop runs \<open>i\<close> from 1 to \<open>points.length - 1\<close> and adds
  up; the closing edge is commented out in the source.
\<close>

definition calculateCircuitLength :: "Point list \<Rightarrow> real" where
  "calculateCircuitLength points =
     fold (\<lambda>i len. len + seg_dist points i) [1..<length points] 0"

subsection \<open>validateGeometry\<close>

record Issue =
  itype :: string
  message :: string
  index :: "nat option"

record Stats =
  totalLength :: real
  sharpestTurn :: real
  longestStraight :: real

record Report =
  isValid :: bool
  issues :: "Issue list"
  stats :: Stats

text \<open>The variables the loop of \<open>validateGeometry\<close> updates.\<close>

record Walk =
  w_issues :: "Issue list"
  w_stats :: Stats
  currentStraight :: real

text \<open>
  The turn angle at loop index \<open>i > 1\<close>: the headings of the segments into and out of
  point \<open>i - 1\<close>, their absolute difference in degrees, folded back when above 180.
\<close>

definition turn_diff :: "Point list \<Rightarrow> nat \<Rightarrow> real" where
  "turn_diff points i =
     (let p1 = points ! (i - 2);
          p2 = points ! (i - 1);
          p3 = points ! i;
          angle1 = atan2 (py p2 - py p1) (px p2 - px p1);
          angle2 = atan2 (py p3 - py p2) (px p3 - px p2);
          diff = \<bar>angle1 - angle2\<bar> * 180 / pi
      in if diff > 180 then 360 - diff else diff)"

definition sharp_turn_issue :: "nat \<Rightarrow> Issue" where
  "sharp_turn_issue i =
     \<lparr>itype = ''critical'',
      message = ''Impossible sharp turn at point '' @ string_of_nat i,
      index = Some i\<rparr>"

definition hairpin_issue :: "nat \<Rightarrow> Issue" where
  "hairpin_issue i =
     \<lparr>itype = ''warning'',
      message = ''Very tight hairpin at point '' @ string_of_nat i,
      index = Some i\<rparr>"

definition too_short_issue :: Issue where
  "too_short_issue =
     \<lparr>itype = ''warning'', message = ''Track too short for F1 standards (<3km)'', index = None\<rparr>"

definition too_long_issue :: Issue where
  "too_long_issue =
     \<lparr>itype = ''warning'', message = ''Track too long for F1 standards (>8km)'', index = None\<rparr>"

text \<open>One iteration of the loop, at index \<open>i\<close>.\<close>

definition validate_step :: "Point list \<Rightarrow> nat \<Rightarrow> Walk \<Rightarrow> Walk" where
  "validate_step points i w =
     (let dist = seg_dist points i;
          w1 = w\<lparr>w_stats := (w_stats w)\<lparr>totalLength := totalLength (w_stats w) + dist\<rparr>\<rparr>
      in if i > 1 then
           (let diff = turn_diff points i;
                w2 = (if diff > 160 then w1\<lparr>w_issues := w_issues w1 @ [sharp_turn_issue i]\<rparr>
                      else if diff > 120 then w1\<lparr>w_issues := w_issues w1 @ [hairpin_issue i]\<rparr>
                      else w1)
            in if diff < 2 then w2\<lparr>currentStraight := currentStraight w2 + dist\<rparr>
               else w2\<lparr>w_stats := (w_stats w2)\<lparr>longestStraight :=
                                       max (longestStraight (w_stats w2)) (currentStraight w2)\<rparr>,
                       currentStraight := 0\<rparr>)
         else w1\<lparr>currentStraight := currentStraight w1 + dist\<rparr>)"

definition validate_init :: Walk where
  "validate_init =
     \<lparr>w_issues = [],
      w_stats = \<lparr>totalLength = 0, sharpestTurn = 180, longestStraight = 0\<rparr>,
      currentStraight = 0\<rparr>"

definition validate_walk :: "Point list \<Rightarrow> Walk" where
  "validate_walk points = fold (validate_step points) [1..<length points] validate_init"

text \<open>The parameter \<open>closed\<close> has the default \<open>false\<close> and is not read.\<close>

definition validateGeometry :: "Point list \<Rightarrow> bool \<Rightarrow> Report" where
  "validateGeometry points closed_flag =
     (let w = validate_walk points;
          issues1 = (if totalLength (w_stats w) < 3000 then w_issues w @ [too_short_issue]
                     else w_issues w);
          issues2 = (if totalLength (w_stats w) > 8000 then issues1 @ [too_long_issue]
                     else issues1)
      in \<lparr>isValid = (length issues2 = 0), issues = issues2, stats = w_stats w\<rparr>)"

subsection \<open>calculateAccuracyScore\<close>

text \<open>
  The placeholder score. The first argument is the value that \<open>Math.random()\<close>
  returns, a number in \<open>[0, 1)\<close>.
\<close>

definition calculateAccuracyScore :: "real \<Rightarrow> Point list \<Rightarrow> Point list \<Rightarrow> real" where
  "calculateAccuracyScore random drawnPoints referencePoints = 85 + random * 10"

text \<open>
  What one iteration appends to the list of issues: nothing at index 1, and at most
  one turn issue at an index above 1.
\<close>

definition turn_issues :: "Point list \<Rightarrow> nat \<Rightarrow> Issue list" where
  "turn_issues points i =
     (if i > 1 then
        (if turn_diff points i > 160 then [sharp_turn_issue i]
         else if turn_diff points i > 120 then [hairpin_issue i]
         else [])
      else [])"

section \<open>The application: closure, radius and segments\<close>

text \<open>
  The circuit points of the application are either all geodetic or all planar; the
  code decides which by looking for a \<open>lat\<close> field on the first point.
\<close>

datatype CircuitPoints = GeodeticPoints "LatLng list" | PlanarPoints "Point list"

fun num_points :: "CircuitPoints \<Rightarrow> nat" where
  "num_points (GeodeticPoints ps) = length ps"
| "num_points (PlanarPoints ps) = length ps"

definition checkCircuitComplete :: "CircuitPoints \<Rightarrow> bool" where
  "checkCircuitComplete points =
     (if num_points points < 3 then False
      else case points of
        GeodeticPoints ps \<Rightarrow>
          (let first = ps ! 0;
               last = ps ! (length ps - 1);
               dist = getDistanceMeters (lat first) (lng first) (lat last) (lng last)
           in dist < 40)
      | PlanarPoints ps \<Rightarrow>
          (let first = ps ! 0;
               last = ps ! (length ps - 1);
               dist = hypot (px first - px last) (py first - py last)
           in dist < 30))"

text \<open>The closure test of the canvas editor, and its variant with the snap distance 20.\<close>

definition isLoopClosed :: "Point list \<Rightarrow> bool" where
  "isLoopClosed pts =
     (if length pts < 3 then False
      else (let first = pts ! 0;
                last = pts ! (length pts - 1);
                dist = hypot (px first - px last) (py first - py last)
            in dist < 30))"

definition isLoopClosed_snap :: "Point list \<Rightarrow> bool" where
  "isLoopClosed_snap pts =
     (if length pts < 3 then False
      else (let first = pts ! 0;
                last = pts ! (length pts - 1);
                dist = hypot (px first - px last) (py first - py last)
            in dist < 20))"

text \<open>The determinant \<open>D\<close> of the circumscribed circle of three points.\<close>

definition circum_D :: "Point \<Rightarrow> Point \<Rightarrow> Point \<Rightarrow> real" where
  "circum_D p1 p2 p3 =
     (let x1 = px p1; y1 = py p1;
          x2 = px p2; y2 = py p2;
          x3 = px p3; y3 = py p3
      in 2 * (x1 * (y2 - y3) + x2 * (y3 - y1) + x3 * (y1 - y2)))"

text \<open>
  \<open>calculateRadius\<close>, with the division it uses as a parameter \<open>dv\<close>: the source's
  function is the instance at the division of the reals.
\<close>

definition calculateRadius_with ::
  "(real \<Rightarrow> real \<Rightarrow> real) \<Rightarrow> Point \<Rightarrow> Point \<Rightarrow> Point \<Rightarrow> real" where
  "calculateRadius_with dv p1 p2 p3 =
     (let x1 = px p1; y1 = py p1;
          x2 = px p2; y2 = py p2;
          x3 = px p3; y3 = py p3;
          D = circum_D p1 p2 p3
      in if \<bar>D\<bar> < 1 / 100000 then 0
         else (let Ux = dv ((x1\<^sup>2 + y1\<^sup>2) * (y2 - y3) + (x2\<^sup>2 + y2\<^sup>2) * (y3 - y1) +
                            (x3\<^sup>2 + y3\<^sup>2) * (y1 - y2)) D;
                   Uy = dv ((x1\<^sup>2 + y1\<^sup>2) * (x3 - x2) + (x2\<^sup>2 + y2\<^sup>2) * (x1 - x3) +
                            (x3\<^sup>2 + y3\<^sup>2) * (x2 - x1)) D;
                   Rc = hypot (x1 - Ux) (y1 - Uy)
               in min Rc 1000))"

definition calculateRadius :: "Point \<Rightarrow> Point \<Rightarrow> Point \<Rightarrow> real" where
  "calculateRadius = calculateRadius_with (\<lambda>a b. a / b)"

record Segment =
  seg_id :: string
  seg_type :: string
  seg_length :: real
  radius :: real

text \<open>The points in meters: geodetic points are projected with the first as origin.\<close>

definition meterPoints_of :: "CircuitPoints \<Rightarrow> Point list" where
  "meterPoints_of circuitPoints =
     (case circuitPoints of
        GeodeticPoints ps \<Rightarrow>
          (let origin = ps ! 0
           in map (\<lambda>p. latLonToMeters (lat p) (lng p) (lat origin) (lng origin)) ps)
      | PlanarPoints ps \<Rightarrow> ps)"

text \<open>The segment that the loop of \<open>buildSegments\<close> pushes at index \<open>i\<close>.\<close>

definition build_segment :: "Point list \<Rightarrow> nat \<Rightarrow> Segment" where
  "build_segment meterPoints i =
     (let pPrev = meterPoints ! (i - 1);
          pCurr = meterPoints ! i;
          dist = hypot (px pCurr - px pPrev) (py pCurr - py pPrev);
          rad = calculateRadius (meterPoints ! nat (max 0 (int i - 2))) pPrev pCurr;
          isCorner = (rad > 0 \<and> rad < 500)
      in \<lparr>seg_id = ''seg-'' @ string_of_nat i,
          seg_type = (if isCorner then ''corner'' else ''straight''),
          seg_length = dist,
          radius = (if isCorner then rad else 0)\<rparr>)"

definition buildSegments :: "CircuitPoints \<Rightarrow> Segment list" where
  "buildSegments circuitPoints =
     (if num_points circuitPoints < 2 then []
      else (let meterPoints = meterPoints_of circuitPoints
            in map (build_segment meterPoints) [1..<length meterPoints]))"

section \<open>The spline generators\<close>

text \<open>
  A control point handed to the spline generator is a planar point that may carry a
  \<open>type\<close> tag. The generated objects do not all have the same fields: a field that an
  object lacks is \<open>None\<close>. For \<open>speed\<close>, \<open>None\<close> also stands for the value that
  arithmetic on a missing field yields.
\<close>

record ControlPoint = Point +
  ptype :: "string option"

record SplinePoint =
  sp_x :: real
  sp_y :: real
  sp_dx :: "real option"
  sp_dy :: "real option"
  angle :: "real option"
  speed :: "real option"
  sp_type :: "string option"

text \<open>The object \<open>{...p, speed: s}\<close> or \<open>{...p, speed: s, angle: a}\<close> of a control point.\<close>

definition spread_point :: "ControlPoint \<Rightarrow> real \<Rightarrow> real option \<Rightarrow> SplinePoint" where
  "spread_point p s a =
     \<lparr>sp_x = px p, sp_y = py p, sp_dx = None, sp_dy = None, angle = a, speed = Some s,
      sp_type = ptype p\<rparr>"

text \<open>
  The Catmull-Rom sample at step \<open>t\<close> of \<open>segments\<close> on the span from \<open>p1\<close> to
  \<open>p2\<close>; it is pushed without a speed.
\<close>

definition spline_sample ::
  "ControlPoint \<Rightarrow> ControlPoint \<Rightarrow> ControlPoint \<Rightarrow> ControlPoint \<Rightarrow> nat \<Rightarrow> nat \<Rightarrow> SplinePoint" where
  "spline_sample p0 p1 p2 p3 t segments =
     (let st = real t / real segments;
          tt = st * st;
          ttt = tt * st;
          q0 = - ttt + 2 * tt - st;
          q1 = 3 * ttt - 5 * tt + 2;
          q2 = - 3 * ttt + 4 * tt + st;
          q3 = ttt - st;
          x = 0.5 * (px p0 * q0 + px p1 * q1 + px p2 * q2 + px p3 * q3);
          y = 0.5 * (py p0 * q0 + py p1 * q1 + py p2 * q2 + py p3 * q3);
          dq0 = - 3 * tt + 4 * st - 1;
          dq1 = 9 * tt - 10 * st;
          dq2 = - 9 * tt + 8 * st + 1;
          dq3 = 3 * tt - 1;
          dx = 0.5 * (px p0 * dq0 + px p1 * dq1 + px p2 * dq2 + px p3 * dq3);
          dy = 0.5 * (py p0 * dq0 + py p1 * dq1 + py p2 * dq2 + py p3 * dq3)
      in \<lparr>sp_x = x, sp_y = y, sp_dx = Some dx, sp_dy = Some dy, angle = Some (atan2 dy dx),
          speed = None, sp_type = None\<rparr>)"

text \<open>
  The curvature at index \<open>i\<close> of the samples: 0 at both ends, and otherwise ten times
  the difference of the tangent angles of sample \<open>i - 1\<close> and sample \<open>i\<close>, folded back
  when above \<open>\<pi>\<close>.
\<close>

definition curvature_at :: "SplinePoint list \<Rightarrow> nat \<Rightarrow> real option" where
  "curvature_at splinePoints i =
     (if i > 0 \<and> i < length splinePoints - 1 then
        (let prev = splinePoints ! (i - 1);
             p = splinePoints ! i
         in case (sp_dy prev, sp_dx prev, sp_dy p, sp_dx p) of
              (Some prev_dy, Some prev_dx, Some p_dy, Some p_dx) \<Rightarrow>
                (let angle1 = atan2 prev_dy prev_dx;
                     angle2 = atan2 p_dy p_dx;
                     diff = \<bar>angle1 - angle2\<bar>;
                     diff' = (if diff > pi then 2 * pi - diff else diff)
                 in Some (diff' * 10))
            | _ \<Rightarrow> None)
      else Some 0)"

text \<open>
  The literal \<open>0.8\<close> is the double nearest to it, \<open>3602879701896397 / 2^52\<close>, which is
  a little above 0.8. The difference \<open>1.0 - 0.8\<close> of these doubles is again a double,
  \<open>900719925474099 / 2^52\<close>, so that the subtraction does not round: it is the number
  that prints as \<open>0.19999999999999996\<close>.
\<close>

definition double_0_8 :: real where
  "double_0_8 = 3602879701896397 / 4503599627370496"

definition speed_of :: "real option \<Rightarrow> real option" where
  "speed_of curvature =
     (case curvature of Some k \<Rightarrow> Some (1.0 - min k double_0_8) | None \<Rightarrow> None)"

text \<open>
  The pass that assigns the speeds. It writes the field \<open>speed\<close> of sample \<open>i\<close> and
  reads only the tangents, which it does not change.
\<close>

definition assign_speeds :: "SplinePoint list \<Rightarrow> SplinePoint list" where
  "assign_speeds splinePoints =
     map (\<lambda>i. (splinePoints ! i)\<lparr>speed := speed_of (curvature_at splinePoints i)\<rparr>)
       [0..<length splinePoints]"

text \<open>\<open>v || 0\<close> on a number that may be missing.\<close>

definition or_zero :: "real option \<Rightarrow> real" where
  "or_zero v = (case v of None \<Rightarrow> 0 | Some s \<Rightarrow> if s = 0 then 0 else s)"

text \<open>The Catmull-Rom generator of the map editor and of the canvas editor.\<close>

definition getSplinePoints :: "ControlPoint list \<Rightarrow> nat \<Rightarrow> bool \<Rightarrow> SplinePoint list" where
  "getSplinePoints points segments closed_flag =
     (if length points < 2 then map (\<lambda>p. spread_point p 1.0 None) points
      else
        (let n = length points;
             pts = (if closed_flag
                    then [points ! (n - 2), points ! (n - 1)] @ points @ [points ! 0, points ! 1]
                    else [points ! 0] @ points @ [points ! (n - 1)]);
             splinePoints = concat (map (\<lambda>i.
                 map (\<lambda>t. spline_sample (pts ! (i - 1)) (pts ! i) (pts ! (i + 1)) (pts ! (i + 2))
                            t segments) [0..<segments])
               [1..<length pts - 2]);
             splinePoints' = assign_speeds splinePoints
         in if \<not> closed_flag then
              (let last = points ! (n - 1);
                   last_speed = (if splinePoints' = [] then None
                                 else speed (splinePoints' ! (length splinePoints' - 1)))
               in splinePoints' @ [spread_point last (or_zero last_speed) (Some 0)])
            else splinePoints'))"

text \<open>
  The generator of the editor with segment types: a span that starts at a point tagged
  \<open>straight\<close> is interpolated linearly and its samples are pushed with the speed 1.
\<close>

definition straight_samples :: "ControlPoint \<Rightarrow> ControlPoint \<Rightarrow> nat \<Rightarrow> SplinePoint list" where
  "straight_samples p1 p2 i =
     (let dist = hypot (px p2 - px p1) (py p2 - py p1);
          steps = nat (max 5 \<lfloor>dist / 10\<rfloor>)
      in map (\<lambda>t.
           (let ratio = real t / real steps;
                x = px p1 + (px p2 - px p1) * ratio;
                y = py p1 + (py p2 - py p1) * ratio;
                dx = px p2 - px p1;
                dy = py p2 - py p1
            in \<lparr>sp_x = x, sp_y = y, sp_dx = Some dx, sp_dy = Some dy,
                angle = Some (atan2 dy dx), speed = Some 1.0, sp_type = None\<rparr>))
           (filter (\<lambda>t. t > 0 \<or> i = 0) [0..<steps + 1]))"

definition assign_speeds_mixed :: "SplinePoint list \<Rightarrow> SplinePoint list" where
  "assign_speeds_mixed splinePoints =
     map (\<lambda>i. (let p = splinePoints ! i
                in if speed p = Some 1.0 then p
                   else p\<lparr>speed := speed_of (curvature_at splinePoints i)\<rparr>))
       [0..<length splinePoints]"

definition getSplinePoints_mixed :: "ControlPoint list \<Rightarrow> nat \<Rightarrow> bool \<Rightarrow> SplinePoint list" where
  "getSplinePoints_mixed points segments closed_flag =
     (if length points < 2 then map (\<lambda>p. spread_point p 1.0 None) points
      else
        (let loopPoints = (if closed_flag then points @ [points ! 0] else points);
             splinePoints = concat (map (\<lambda>i.
                 (let p1 = loopPoints ! i;
                      p2 = loopPoints ! (i + 1)
                  in if ptype p1 = Some ''straight'' then straight_samples p1 p2 i
                     else
                       (let p0 = (if i > 0 then loopPoints ! (i - 1)
                                  else if closed_flag then loopPoints ! (length loopPoints - 2)
                                  else p1);
                            p3 = (if i < length loopPoints - 2 then loopPoints ! (i + 2)
                                  else if closed_flag then loopPoints ! 1
                                  else p2)
                        in map (\<lambda>t. spline_sample p0 p1 p2 p3 t segments) [0..<segments])))
               [0..<length loopPoints - 1])
         in assign_speeds_mixed splinePoints))"

text \<open>
  A sample has a tangent when both \<open>dx\<close> and \<open>dy\<close> are present; its speed factor is in
  range when \<open>speed\<close> is a number between \<open>1.0 - 0.8\<close>, as the code computes it, and
  \<open>1.0\<close>.
\<close>

definition has_tangent :: "SplinePoint \<Rightarrow> bool" where
  "has_tangent p \<longleftrightarrow> sp_dx p \<noteq> None \<and> sp_dy p \<noteq> None"

definition speed_in_range :: "SplinePoint \<Rightarrow> bool" where
  "speed_in_range p \<longleftrightarrow>
     (case speed p of Some s \<Rightarrow> 1.0 - double_0_8 \<le> s \<and> s \<le> 1.0 | None \<Rightarrow> False)"

section \<open>Rigid motions of the plane\<close>

text \<open>
  The rotation by the angle \<open>\<theta>\<close> about the center \<open>(cx, cy)\<close>, followed by the
  translation by \<open>(tx, ty)\<close>.
\<close>

definition rigid_motion :: "real \<Rightarrow> real \<Rightarrow> real \<Rightarrow> real \<Rightarrow> real \<Rightarrow> Point \<Rightarrow> Point" where
  "rigid_motion \<theta> cx cy tx ty p =
     \<lparr>px = cx + (cos \<theta> * (px p - cx) - sin \<theta> * (py p - cy)) + tx,
      py = cy + (sin \<theta> * (px p - cx) + cos \<theta> * (py p - cy)) + ty\<rparr>"

section \<open>Properties of the Math functions\<close>

lemma hypot_zero_right [simp]: "hypot a 0 = \<bar>a\<bar>"
  by (simp add: hypot_def)

lemma hypot_zero_left [simp]: "hypot 0 b = \<bar>b\<bar>"
  by (simp add: hypot_def)

lemma hypot_nonneg: "0 \<le> hypot a b"
  by (simp add: hypot_def)

lemma atan2_zero_pos [simp]: "0 < x \<Longrightarrow> atan2 0 x = 0"
  by (simp add: atan2_def)

lemma atan2_zero_neg [simp]: "x < 0 \<Longrightarrow> atan2 0 x = pi"
  by (simp add: atan2_def)

lemma atan2_zero_zero [simp]: "atan2 0 0 = 0"
  by (simp add: atan2_def)

lemma atan2_bounds: "- pi < atan2 y x \<and> atan2 y x \<le> pi"
proof -
  have lo: "- (pi / 2) < arctan (y / x)" and hi: "arctan (y / x) < pi / 2"
    by (rule arctan_lbound, rule arctan_ubound)
  consider "0 < x" | "x < 0" "0 \<le> y" | "x < 0" "y < 0" | "x = 0"
    by linarith
  then show ?thesis
  proof cases
    case 1
    with lo hi pi_gt_zero show ?thesis by (simp add: atan2_def)
  next
    case 2
    then have "y / x \<le> 0" by (simp add: divide_nonneg_neg)
    then have "arctan (y / x) \<le> 0" by (simp add: arctan_le_zero_iff)
    with lo pi_gt_zero have "- pi < arctan (y / x) + pi \<and> arctan (y / x) + pi \<le> pi"
      by linarith
    with 2 show ?thesis by (simp add: atan2_def)
  next
    case 3
    then have "0 < y / x" by (simp add: divide_neg_neg)
    then have "0 < arctan (y / x)" by (simp add: zero_less_arctan_iff)
    with hi pi_gt_zero have "- pi < arctan (y / x) - pi \<and> arctan (y / x) - pi \<le> pi"
      by linarith
    with 3 show ?thesis by (simp add: atan2_def)
  next
    case 4
    then have "atan2 y x = pi / 2 \<or> atan2 y x = - (pi / 2) \<or> atan2 y x = 0"
      by (simp add: atan2_def)
    then show ?thesis using pi_gt_zero by linarith
  qed
qed

section \<open>The haversine distance and the projection\<close>

text \<open>
  C6: the haversine distance of a geodetic point to itself is 0, and projecting a point
  with itself as the origin gives the planar point \<open>(0, 0)\<close>.
\<close>

theorem self_distance_zero:
  "getDistanceMeters (lat p) (lng p) (lat p) (lng p) = 0 \<and>
   latLonToMeters (lat p) (lng p) (lat p) (lng p) = \<lparr>px = 0, py = 0\<rparr>"
  by (simp add: getDistanceMeters_def latLonToMeters_def)

section \<open>The circuit length\<close>

lemma hypot_rigid_motion:
  "hypot (px (rigid_motion \<theta> cx cy tx ty p) - px (rigid_motion \<theta> cx cy tx ty q))
         (py (rigid_motion \<theta> cx cy tx ty p) - py (rigid_motion \<theta> cx cy tx ty q)) =
   hypot (px p - px q) (py p - py q)"
proof -
  define a where "a = px p - px q"
  define b where "b = py p - py q"
  have "(cos \<theta> * a - sin \<theta> * b)\<^sup>2 + (sin \<theta> * a + cos \<theta> * b)\<^sup>2 =
        ((cos \<theta>)\<^sup>2 + (sin \<theta>)\<^sup>2) * (a\<^sup>2 + b\<^sup>2)"
    by algebra
  then have eq: "(cos \<theta> * a - sin \<theta> * b)\<^sup>2 + (sin \<theta> * a + cos \<theta> * b)\<^sup>2 = a\<^sup>2 + b\<^sup>2"
    by simp
  have "px (rigid_motion \<theta> cx cy tx ty p) - px (rigid_motion \<theta> cx cy tx ty q) =
        cos \<theta> * a - sin \<theta> * b"
    by (simp add: rigid_motion_def a_def b_def algebra_simps)
  moreover have "py (rigid_motion \<theta> cx cy tx ty p) - py (rigid_motion \<theta> cx cy tx ty q) =
        sin \<theta> * a + cos \<theta> * b"
    by (simp add: rigid_motion_def a_def b_def algebra_simps)
  ultimately show ?thesis
    using eq by (simp add: hypot_def a_def b_def)
qed

lemma seg_dist_rigid_motion:
  assumes "i < length points"
  shows "seg_dist (map (rigid_motion \<theta> cx cy tx ty) points) i = seg_dist points i"
proof -
  from assms have "i - 1 < length points" by simp
  with assms show ?thesis
    by (simp add: seg_dist_def hypot_rigid_motion)
qed

text \<open>
  C7: a rotation about any center combined with any translation, applied to every
  point, leaves \<open>calculateCircuitLength\<close> unchanged.
\<close>

theorem circuit_length_rigid_motion:
  "calculateCircuitLength (map (rigid_motion \<theta> cx cy tx ty) points) =
   calculateCircuitLength points"
proof -
  have "fold (\<lambda>i len. len + seg_dist (map (rigid_motion \<theta> cx cy tx ty) points) i)
          [1..<length points] 0 =
        fold (\<lambda>i len. len + seg_dist points i) [1..<length points] 0"
    by (rule fold_cong) (simp_all add: seg_dist_rigid_motion)
  then show ?thesis
    by (simp add: calculateCircuitLength_def)
qed

section \<open>The accuracy score\<close>

text \<open>
  C8: whatever the two point arguments are, and for every random draw in \<open>[0, 1)\<close>,
  the score lies in \<open>[85, 95]\<close>, and it is the same for any other point arguments.
\<close>

theorem accuracy_score_range:
  assumes "0 \<le> random" and "random < 1"
  shows "85 \<le> calculateAccuracyScore random drawnPoints referencePoints \<and>
         calculateAccuracyScore random drawnPoints referencePoints \<le> 95 \<and>
         calculateAccuracyScore random drawnPoints referencePoints =
           calculateAccuracyScore random drawnPoints' referencePoints'"
  using assms by (simp add: calculateAccuracyScore_def)

theorem accuracy_score_range_witness:
  "(0::real) \<le> 1 / 2 \<and> (1 / 2 ::real) < 1 \<and>
   calculateAccuracyScore (1 / 2) [] [\<lparr>px = 3, py = 4\<rparr>] = 90 \<and>
   calculateAccuracyScore (1 / 2) [] [\<lparr>px = 3, py = 4\<rparr>] =
     calculateAccuracyScore (1 / 2) [\<lparr>px = 1, py = 1\<rparr>] []"
  using accuracy_score_range [of "1 / 2" "[]" "[\<lparr>px = 3, py = 4\<rparr>]" "[\<lparr>px = 1, py = 1\<rparr>]" "[]"]
  by (simp add: calculateAccuracyScore_def)

section \<open>The validator\<close>

text \<open>
  C9: the report of \<open>validateGeometry\<close> is the same for both values of its parameter
  \<open>closed\<close>.
\<close>

theorem validate_closed_irrelevant:
  "validateGeometry points True = validateGeometry points False"
  by (simp add: validateGeometry_def)

lemma walk_issues:
  "w_issues (fold (validate_step points) js w) = w_issues w @ concat (map (turn_issues points) js)"
  by (induction js arbitrary: w) (simp_all add: validate_step_def turn_issues_def Let_def)

lemma walk_total:
  "totalLength (w_stats (fold (validate_step points) js w)) =
   totalLength (w_stats w) + sum_list (map (seg_dist points) js)"
  by (induction js arbitrary: w) (simp_all add: validate_step_def Let_def)

lemma validate_walk_issues:
  "w_issues (validate_walk points) = concat (map (turn_issues points) [1..<length points])"
  by (simp add: validate_walk_def walk_issues validate_init_def)

lemma validate_walk_total:
  "totalLength (w_stats (validate_walk points)) = (\<Sum>i = 1..<length points. seg_dist points i)"
  by (simp add: validate_walk_def walk_total validate_init_def interv_sum_list_conv_sum_set_nat)

lemma too_short_not_turn: "too_short_issue \<notin> set (turn_issues points i)"
  by (simp add: turn_issues_def too_short_issue_def sharp_turn_issue_def hairpin_issue_def)

lemma too_long_not_turn: "too_long_issue \<notin> set (turn_issues points i)"
  by (simp add: turn_issues_def too_long_issue_def sharp_turn_issue_def hairpin_issue_def)

lemma short_neq_long: "too_short_issue \<noteq> too_long_issue"
  by (simp add: too_short_issue_def too_long_issue_def)

lemma sharp_in_turn_issues:
  "sharp_turn_issue i \<in> set (turn_issues points j) \<longleftrightarrow> j = i \<and> 1 < i \<and> turn_diff points i > 160"
  by (auto simp add: turn_issues_def sharp_turn_issue_def hairpin_issue_def)

lemma hairpin_in_turn_issues:
  "hairpin_issue i \<in> set (turn_issues points j) \<longleftrightarrow>
     j = i \<and> 1 < i \<and> 120 < turn_diff points i \<and> turn_diff points i \<le> 160"
  by (auto simp add: turn_issues_def sharp_turn_issue_def hairpin_issue_def)

lemma issues_validateGeometry:
  "set (issues (validateGeometry points c)) =
     (\<Union>j \<in> {1..<length points}. set (turn_issues points j)) \<union>
     (if (\<Sum>i = 1..<length points. seg_dist points i) < 3000 then {too_short_issue} else {}) \<union>
     (if (\<Sum>i = 1..<length points. seg_dist points i) > 8000 then {too_long_issue} else {})"
  by (simp add: validateGeometry_def Let_def validate_walk_issues validate_walk_total)

text \<open>
  C3: the report holds the warning that the track is too short exactly when the total
  length, the sum of the distances of consecutive points, is below 3000, and the
  warning that it is too long exactly when the total length is above 8000; so a path
  of length exactly 3000 or exactly 8000 gets neither.
\<close>

theorem length_warnings:
  "(too_short_issue \<in> set (issues (validateGeometry points c)) \<longleftrightarrow>
      (\<Sum>i = 1..<length points. seg_dist points i) < 3000) \<and>
   (too_long_issue \<in> set (issues (validateGeometry points c)) \<longleftrightarrow>
      (\<Sum>i = 1..<length points. seg_dist points i) > 8000) \<and>
   totalLength (stats (validateGeometry points c)) =
      (\<Sum>i = 1..<length points. seg_dist points i)"
proof -
  let ?len = "\<Sum>i = 1..<length points. seg_dist points i"
  have "too_short_issue \<in> set (issues (validateGeometry points c)) \<longleftrightarrow> ?len < 3000"
    using short_neq_long by (simp add: issues_validateGeometry too_short_not_turn)
  moreover have "too_long_issue \<in> set (issues (validateGeometry points c)) \<longleftrightarrow> ?len > 8000"
    using short_neq_long by (auto simp add: issues_validateGeometry too_long_not_turn)
  moreover have "totalLength (stats (validateGeometry points c)) = ?len"
    by (simp add: validateGeometry_def Let_def validate_walk_total)
  ultimately show ?thesis by blast
qed

theorem length_warnings_witness:
  "too_short_issue \<notin> set (issues (validateGeometry [\<lparr>px = 0, py = 0\<rparr>, \<lparr>px = 3000, py = 0\<rparr>] False)) \<and>
   too_long_issue \<notin> set (issues (validateGeometry [\<lparr>px = 0, py = 0\<rparr>, \<lparr>px = 3000, py = 0\<rparr>] False)) \<and>
   totalLength (stats (validateGeometry [\<lparr>px = 0, py = 0\<rparr>, \<lparr>px = 3000, py = 0\<rparr>] False)) = 3000 \<and>
   too_short_issue \<in> set (issues (validateGeometry [\<lparr>px = 0, py = 0\<rparr>, \<lparr>px = 2999, py = 0\<rparr>] False)) \<and>
   too_long_issue \<notin> set (issues (validateGeometry [\<lparr>px = 0, py = 0\<rparr>, \<lparr>px = 8000, py = 0\<rparr>] False)) \<and>
   too_short_issue \<notin> set (issues (validateGeometry [\<lparr>px = 0, py = 0\<rparr>, \<lparr>px = 8000, py = 0\<rparr>] False)) \<and>
   too_long_issue \<in> set (issues (validateGeometry [\<lparr>px = 0, py = 0\<rparr>, \<lparr>px = 8001, py = 0\<rparr>] False))"
  using length_warnings [of "[\<lparr>px = 0, py = 0\<rparr>, \<lparr>px = 3000, py = 0\<rparr>]" False]
        length_warnings [of "[\<lparr>px = 0, py = 0\<rparr>, \<lparr>px = 2999, py = 0\<rparr>]" False]
        length_warnings [of "[\<lparr>px = 0, py = 0\<rparr>, \<lparr>px = 8000, py = 0\<rparr>]" False]
        length_warnings [of "[\<lparr>px = 0, py = 0\<rparr>, \<lparr>px = 8001, py = 0\<rparr>]" False]
  by (simp add: seg_dist_def)

lemma turn_diff_range: "0 \<le> turn_diff points i \<and> turn_diff points i \<le> 180"
proof -
  define a1 where "a1 = atan2 (py (points ! (i - 1)) - py (points ! (i - 2)))
                              (px (points ! (i - 1)) - px (points ! (i - 2)))"
  define a2 where "a2 = atan2 (py (points ! i) - py (points ! (i - 1)))
                              (px (points ! i) - px (points ! (i - 1)))"
  define d where "d = \<bar>a1 - a2\<bar> * 180 / pi"
  have eq: "turn_diff points i = (if d > 180 then 360 - d else d)"
    by (simp add: turn_diff_def Let_def a1_def a2_def d_def)
  have "- pi < a1" "a1 \<le> pi" "- pi < a2" "a2 \<le> pi"
    using atan2_bounds by (simp_all add: a1_def a2_def)
  then have "\<bar>a1 - a2\<bar> < 2 * pi" by linarith
  then have "\<bar>a1 - a2\<bar> * 180 / pi < 360"
    using pi_gt_zero by (simp add: field_simps)
  moreover have "0 \<le> \<bar>a1 - a2\<bar> * 180 / pi"
    using pi_gt_zero by simp
  ultimately show ?thesis
    unfolding eq d_def by auto
qed

text \<open>
  C4: at every loop index \<open>i \<ge> 2\<close> of the point sequence, the report holds the
  critical issue of an impossible sharp turn at point \<open>i\<close> exactly when the turn angle
  is above 160, and the hairpin warning at point \<open>i\<close> exactly when the turn angle is
  above 120 and at most 160; the turn angle lies in \<open>[0, 180]\<close>.
\<close>

theorem turn_issue_conditions:
  assumes "2 \<le> i" and "i < length points"
  shows "(sharp_turn_issue i \<in> set (issues (validateGeometry points c)) \<longleftrightarrow>
            turn_diff points i > 160) \<and>
         (hairpin_issue i \<in> set (issues (validateGeometry points c)) \<longleftrightarrow>
            120 < turn_diff points i \<and> turn_diff points i \<le> 160) \<and>
         0 \<le> turn_diff points i \<and> turn_diff points i \<le> 180"
proof -
  have s: "sharp_turn_issue i \<noteq> too_short_issue" "sharp_turn_issue i \<noteq> too_long_issue"
          "hairpin_issue i \<noteq> too_short_issue" "hairpin_issue i \<noteq> too_long_issue"
    by (simp_all add: sharp_turn_issue_def hairpin_issue_def too_short_issue_def too_long_issue_def)
  have "sharp_turn_issue i \<in> set (issues (validateGeometry points c)) \<longleftrightarrow>
          turn_diff points i > 160"
    using assms s by (auto simp add: issues_validateGeometry sharp_in_turn_issues)
  moreover have "hairpin_issue i \<in> set (issues (validateGeometry points c)) \<longleftrightarrow>
          120 < turn_diff points i \<and> turn_diff points i \<le> 160"
    using assms s by (auto simp add: issues_validateGeometry hairpin_in_turn_issues)
  ultimately show ?thesis using turn_diff_range by blast
qed

lemma atan2_one_minus_one: "atan2 1 (- 1) = 3 * pi / 4"
proof -
  have "arctan (- 1) = - (pi / 4)"
    by (simp add: arctan_minus arctan_one)
  then have "arctan (- 1) + pi = 3 * pi / 4" by simp
  then show ?thesis
    by (simp only: atan2_def) simp
qed

lemma hairpin_example:
  "turn_diff [\<lparr>px = 0, py = 0\<rparr>, \<lparr>px = 1, py = 0\<rparr>, \<lparr>px = 0, py = 1\<rparr>] 2 = 135"
proof -
  have "turn_diff [\<lparr>px = 0, py = 0\<rparr>, \<lparr>px = 1, py = 0\<rparr>, \<lparr>px = 0, py = 1\<rparr>] 2 =
        (let diff = \<bar>0 - 3 * pi / 4\<bar> * 180 / pi in if diff > 180 then 360 - diff else diff)"
    by (simp add: turn_diff_def atan2_one_minus_one)
  also have "\<bar>0 - 3 * pi / 4\<bar> * 180 / pi = 135"
    using pi_gt_zero by (simp add: abs_if)
  finally show ?thesis by simp
qed

theorem turn_issue_conditions_witness:
  "(2::nat) \<le> 2 \<and> 2 < length [\<lparr>px = 0, py = 0\<rparr>, \<lparr>px = 1, py = 0\<rparr>, \<lparr>px = 0, py = 0\<rparr>] \<and>
   turn_diff [\<lparr>px = 0, py = 0\<rparr>, \<lparr>px = 1, py = 0\<rparr>, \<lparr>px = 0, py = 0\<rparr>] 2 = 180 \<and>
   sharp_turn_issue 2 \<in>
     set (issues (validateGeometry [\<lparr>px = 0, py = 0\<rparr>, \<lparr>px = 1, py = 0\<rparr>, \<lparr>px = 0, py = 0\<rparr>] False)) \<and>
   hairpin_issue 2 \<notin>
     set (issues (validateGeometry [\<lparr>px = 0, py = 0\<rparr>, \<lparr>px = 1, py = 0\<rparr>, \<lparr>px = 0, py = 0\<rparr>] False)) \<and>
   2 < length [\<lparr>px = 0, py = 0\<rparr>, \<lparr>px = 1, py = 0\<rparr>, \<lparr>px = 0, py = 1\<rparr>] \<and>
   turn_diff [\<lparr>px = 0, py = 0\<rparr>, \<lparr>px = 1, py = 0\<rparr>, \<lparr>px = 0, py = 1\<rparr>] 2 = 135 \<and>
   sharp_turn_issue 2 \<notin>
     set (issues (validateGeometry [\<lparr>px = 0, py = 0\<rparr>, \<lparr>px = 1, py = 0\<rparr>, \<lparr>px = 0, py = 1\<rparr>] False)) \<and>
   hairpin_issue 2 \<in>
     set (issues (validateGeometry [\<lparr>px = 0, py = 0\<rparr>, \<lparr>px = 1, py = 0\<rparr>, \<lparr>px = 0, py = 1\<rparr>] False))"
proof -
  have d: "turn_diff [\<lparr>px = 0, py = 0\<rparr>, \<lparr>px = 1, py = 0\<rparr>, \<lparr>px = 0, py = 0\<rparr>] 2 = 180"
    by (simp add: turn_diff_def)
  show ?thesis
    using turn_issue_conditions [of 2 "[\<lparr>px = 0, py = 0\<rparr>, \<lparr>px = 1, py = 0\<rparr>, \<lparr>px = 0, py = 0\<rparr>]" False]
          turn_issue_conditions [of 2 "[\<lparr>px = 0, py = 0\<rparr>, \<lparr>px = 1, py = 0\<rparr>, \<lparr>px = 0, py = 1\<rparr>]" False]
    by (simp add: d hairpin_example)
qed

lemma validate_walk_nil: "validate_walk [] = validate_init"
  by (simp add: validate_walk_def)

lemma validate_walk_single: "validate_walk [a] = validate_init"
  by (simp add: validate_walk_def)

lemma validate_walk_pair:
  "validate_walk [a, b] =
     \<lparr>w_issues = [],
      w_stats = \<lparr>totalLength = seg_dist [a, b] 1, sharpestTurn = 180, longestStraight = 0\<rparr>,
      currentStraight = seg_dist [a, b] 1\<rparr>"
proof -
  have "[1..<length [a, b]] = [1]" by (simp add: upt_rec)
  then show ?thesis
    by (simp add: validate_walk_def validate_step_def validate_init_def Let_def)
qed

lemma short_walk:
  assumes "length points < 3"
  shows "w_issues (validate_walk points) = [] \<and>
         w_stats (validate_walk points) =
           \<lparr>totalLength = calculateCircuitLength points, sharpestTurn = 180, longestStraight = 0\<rparr>"
proof -
  consider "points = []" | a where "points = [a]" | a b where "points = [a, b]"
  proof (cases points)
    case Nil
    then show ?thesis using that by simp
  next
    case (Cons a ps)
    note outer = this
    show ?thesis
    proof (cases ps)
      case Nil
      with outer show ?thesis using that by simp
    next
      case (Cons b qs)
      with outer assms have "qs = []" by simp
      with outer Cons show ?thesis using that by simp
    qed
  qed
  then show ?thesis
  proof cases
    case 1
    then show ?thesis
      by (simp add: validate_walk_nil validate_init_def calculateCircuitLength_def)
  next
    case 2
    then show ?thesis
      by (simp add: validate_walk_single validate_init_def calculateCircuitLength_def)
  next
    case 3
    have "[1..<length [a, b]] = [1]" by (simp add: upt_rec)
    then have "calculateCircuitLength [a, b] = seg_dist [a, b] 1"
      by (simp add: calculateCircuitLength_def)
    with 3 show ?thesis
      by (simp add: validate_walk_pair)
  qed
qed

lemma short_length: "length points < 2 \<Longrightarrow> calculateCircuitLength points = 0"
  by (cases points) (simp_all add: calculateCircuitLength_def)

text \<open>
  C1, as the code has it: with fewer than 3 points every closure test returns false,
  and the validator reports no turn issue, the initial sharpest turn and longest
  straight, and as total length the distance of the two points (0 with fewer than 2
  points). The report is valid exactly when that length lies between 3000 and 8000,
  so it is not valid with fewer than 2 points.
\<close>

theorem few_points:
  "(num_points cps < 3 \<longrightarrow> \<not> checkCircuitComplete cps) \<and>
   (length points < 3 \<longrightarrow>
      \<not> isLoopClosed points \<and> \<not> isLoopClosed_snap points \<and>
      stats (validateGeometry points c) =
        \<lparr>totalLength = calculateCircuitLength points, sharpestTurn = 180, longestStraight = 0\<rparr> \<and>
      issues (validateGeometry points c) =
        (if calculateCircuitLength points < 3000 then [too_short_issue] else []) @
        (if calculateCircuitLength points > 8000 then [too_long_issue] else []) \<and>
      (isValid (validateGeometry points c) \<longleftrightarrow>
         3000 \<le> calculateCircuitLength points \<and> calculateCircuitLength points \<le> 8000)) \<and>
   (length points < 2 \<longrightarrow>
      totalLength (stats (validateGeometry points c)) = 0 \<and>
      \<not> isValid (validateGeometry points c))"
proof (intro conjI impI)
  assume "num_points cps < 3"
  then show "\<not> checkCircuitComplete cps" by (simp add: checkCircuitComplete_def)
next
  assume "length points < 3"
  then show "\<not> isLoopClosed points" by (simp add: isLoopClosed_def)
next
  assume "length points < 3"
  then show "\<not> isLoopClosed_snap points" by (simp add: isLoopClosed_snap_def)
next
  assume "length points < 3"
  then show "stats (validateGeometry points c) =
        \<lparr>totalLength = calculateCircuitLength points, sharpestTurn = 180, longestStraight = 0\<rparr>"
    by (simp add: validateGeometry_def Let_def short_walk)
next
  assume "length points < 3"
  then show "issues (validateGeometry points c) =
        (if calculateCircuitLength points < 3000 then [too_short_issue] else []) @
        (if calculateCircuitLength points > 8000 then [too_long_issue] else [])"
    by (simp add: validateGeometry_def Let_def short_walk)
next
  assume "length points < 3"
  then show "isValid (validateGeometry points c) \<longleftrightarrow>
         3000 \<le> calculateCircuitLength points \<and> calculateCircuitLength points \<le> 8000"
    by (auto simp add: validateGeometry_def Let_def short_walk)
next
  assume "length points < 2"
  then have "length points < 3" by simp
  with \<open>length points < 2\<close> show "totalLength (stats (validateGeometry points c)) = 0"
    by (simp add: validateGeometry_def Let_def short_walk short_length)
next
  assume "length points < 2"
  then have "length points < 3" by simp
  with \<open>length points < 2\<close> show "\<not> isValid (validateGeometry points c)"
    by (simp add: validateGeometry_def Let_def short_walk short_length)
qed

text \<open>
  The report for the empty sequence holds the warning that the track is too short, so
  it is not valid.
\<close>

theorem few_points_counterexample:
  "length ([] :: Point list) < 3 \<and> \<not> isValid (validateGeometry [] False)"
  by (simp add: validateGeometry_def validate_walk_def validate_init_def)

theorem few_points_witness:
  "num_points (PlanarPoints [\<lparr>px = 0, py = 0\<rparr>, \<lparr>px = 1, py = 0\<rparr>]) < 3 \<and>
   \<not> checkCircuitComplete (PlanarPoints [\<lparr>px = 0, py = 0\<rparr>, \<lparr>px = 1, py = 0\<rparr>]) \<and>
   length [\<lparr>px = 0, py = 0\<rparr>, \<lparr>px = 5000, py = 0\<rparr>] < 3 \<and>
   \<not> isLoopClosed [\<lparr>px = 0, py = 0\<rparr>, \<lparr>px = 5000, py = 0\<rparr>] \<and>
   isValid (validateGeometry [\<lparr>px = 0, py = 0\<rparr>, \<lparr>px = 5000, py = 0\<rparr>] False) \<and>
   totalLength (stats (validateGeometry [\<lparr>px = 0, py = 0\<rparr>, \<lparr>px = 5000, py = 0\<rparr>] False)) = 5000 \<and>
   length ([] :: Point list) < 2 \<and>
   issues (validateGeometry [] False) = [too_short_issue]"
proof -
  have len: "calculateCircuitLength [\<lparr>px = 0, py = 0\<rparr>, \<lparr>px = 5000, py = 0\<rparr>] = 5000"
    by (simp add: calculateCircuitLength_def upt_rec seg_dist_def)
  have len0: "calculateCircuitLength [] = 0"
    by (simp add: calculateCircuitLength_def)
  show ?thesis
    using few_points [of "PlanarPoints [\<lparr>px = 0, py = 0\<rparr>, \<lparr>px = 1, py = 0\<rparr>]"
                         "[\<lparr>px = 0, py = 0\<rparr>, \<lparr>px = 5000, py = 0\<rparr>]" False]
          few_points [of "PlanarPoints []" "[]" False]
    by (simp add: len len0)
qed

section \<open>Radius and segments\<close>

lemma string_of_nat_digit: "n < 10 \<Longrightarrow> string_of_nat n = [''0123456789'' ! n]"
  by (subst string_of_nat.simps) simp

lemma string_of_nat_1: "string_of_nat (Suc 0) = ''1''"
  by (simp add: string_of_nat_digit)

lemma radius_degenerate:
  "\<bar>circum_D p1 p2 p3\<bar> < 1 / 100000 \<Longrightarrow> calculateRadius_with dv p1 p2 p3 = 0"
  by (simp add: calculateRadius_with_def Let_def)

lemma collinear_circum_D:
  "(px p2 - px p1) * (py p3 - py p1) = (px p3 - px p1) * (py p2 - py p1) \<Longrightarrow>
   circum_D p1 p2 p3 = 0"
  by (simp add: circum_D_def Let_def algebra_simps)

lemma length_meterPoints_of: "length (meterPoints_of cps) = num_points cps"
  by (cases cps) (simp_all add: meterPoints_of_def Let_def)

lemma buildSegments_nth:
  assumes "1 \<le> i" and "i < num_points cps"
  shows "buildSegments cps ! (i - 1) = build_segment (meterPoints_of cps) i"
proof -
  from assms have "i - 1 < length [1..<num_points cps]" by simp
  moreover from assms have "[1..<num_points cps] ! (i - 1) = i" by simp
  ultimately show ?thesis
    using assms by (simp add: buildSegments_def Let_def length_meterPoints_of)
qed

lemma build_segment_degenerate:
  assumes "\<bar>circum_D (mp ! nat (max 0 (int i - 2))) (mp ! (i - 1)) (mp ! i)\<bar> < 1 / 100000"
  shows "seg_type (build_segment mp i) = ''straight'' \<and> radius (build_segment mp i) = 0"
  using assms by (simp add: build_segment_def Let_def calculateRadius_def radius_degenerate)

text \<open>
  C2: collinear points have the determinant \<open>D = 0\<close>. Three points whose determinant
  satisfies \<open>|D| < 1e-5\<close> have the radius 0,
  whatever the division computes, so the division by \<open>D\<close> plays no part in the
  result; and a segment of \<open>buildSegments\<close> whose three points are so is of the type
  \<open>straight\<close> with the radius 0.
\<close>

theorem degenerate_radius_straight:
  "((px p2 - px p1) * (py p3 - py p1) = (px p3 - px p1) * (py p2 - py p1) \<longrightarrow>
      circum_D p1 p2 p3 = 0) \<and>
   (\<bar>circum_D p1 p2 p3\<bar> < 1 / 100000 \<longrightarrow>
      calculateRadius p1 p2 p3 = 0 \<and> (\<forall>dv. calculateRadius_with dv p1 p2 p3 = 0)) \<and>
   (1 \<le> i \<and> i < num_points cps \<and>
    \<bar>circum_D (meterPoints_of cps ! nat (max 0 (int i - 2))) (meterPoints_of cps ! (i - 1))
       (meterPoints_of cps ! i)\<bar> < 1 / 100000 \<longrightarrow>
      seg_type (buildSegments cps ! (i - 1)) = ''straight'' \<and>
      radius (buildSegments cps ! (i - 1)) = 0)"
proof (intro conjI impI allI)
  assume "(px p2 - px p1) * (py p3 - py p1) = (px p3 - px p1) * (py p2 - py p1)"
  then show "circum_D p1 p2 p3 = 0"
    by (rule collinear_circum_D)
next
  assume "\<bar>circum_D p1 p2 p3\<bar> < 1 / 100000"
  then show "calculateRadius p1 p2 p3 = 0"
    unfolding calculateRadius_def by (rule radius_degenerate)
next
  fix dv
  assume "\<bar>circum_D p1 p2 p3\<bar> < 1 / 100000"
  then show "calculateRadius_with dv p1 p2 p3 = 0"
    by (rule radius_degenerate)
next
  assume h: "1 \<le> i \<and> i < num_points cps \<and>
    \<bar>circum_D (meterPoints_of cps ! nat (max 0 (int i - 2))) (meterPoints_of cps ! (i - 1))
       (meterPoints_of cps ! i)\<bar> < 1 / 100000"
  then have "1 \<le> i" and "i < num_points cps" by blast+
  then have "buildSegments cps ! (i - 1) = build_segment (meterPoints_of cps) i"
    by (rule buildSegments_nth)
  with h show "seg_type (buildSegments cps ! (i - 1)) = ''straight''"
    using build_segment_degenerate [of "meterPoints_of cps" i] by simp
next
  assume h: "1 \<le> i \<and> i < num_points cps \<and>
    \<bar>circum_D (meterPoints_of cps ! nat (max 0 (int i - 2))) (meterPoints_of cps ! (i - 1))
       (meterPoints_of cps ! i)\<bar> < 1 / 100000"
  then have "1 \<le> i" and "i < num_points cps" by blast+
  then have "buildSegments cps ! (i - 1) = build_segment (meterPoints_of cps) i"
    by (rule buildSegments_nth)
  with h show "radius (buildSegments cps ! (i - 1)) = 0"
    using build_segment_degenerate [of "meterPoints_of cps" i] by simp
qed

theorem degenerate_radius_straight_witness:
  "(px \<lparr>px = 1, py = 0\<rparr> - px \<lparr>px = 0, py = 0\<rparr>) * (py \<lparr>px = 2, py = 0\<rparr> - py \<lparr>px = 0, py = 0\<rparr>) =
   (px \<lparr>px = 2, py = 0\<rparr> - px \<lparr>px = 0, py = 0\<rparr>) * (py \<lparr>px = 1, py = 0\<rparr> - py \<lparr>px = 0, py = 0\<rparr>) \<and>
   circum_D \<lparr>px = 0, py = 0\<rparr> \<lparr>px = 1, py = 0\<rparr> \<lparr>px = 2, py = 0\<rparr> = 0 \<and>
   \<bar>circum_D \<lparr>px = 0, py = 0\<rparr> \<lparr>px = 1, py = 0\<rparr> \<lparr>px = 2, py = 0\<rparr>\<bar> < 1 / 100000 \<and>
   calculateRadius \<lparr>px = 0, py = 0\<rparr> \<lparr>px = 1, py = 0\<rparr> \<lparr>px = 2, py = 0\<rparr> = 0 \<and>
   (1::nat) \<le> 2 \<and>
   2 < num_points (PlanarPoints [\<lparr>px = 0, py = 0\<rparr>, \<lparr>px = 1, py = 0\<rparr>, \<lparr>px = 2, py = 0\<rparr>]) \<and>
   seg_type (buildSegments
      (PlanarPoints [\<lparr>px = 0, py = 0\<rparr>, \<lparr>px = 1, py = 0\<rparr>, \<lparr>px = 2, py = 0\<rparr>]) ! 1) = ''straight'' \<and>
   radius (buildSegments
      (PlanarPoints [\<lparr>px = 0, py = 0\<rparr>, \<lparr>px = 1, py = 0\<rparr>, \<lparr>px = 2, py = 0\<rparr>]) ! 1) = 0"
  using degenerate_radius_straight [where ?p1.0 = "\<lparr>px = 0, py = 0\<rparr>"
          and ?p2.0 = "\<lparr>px = 1, py = 0\<rparr>" and ?p3.0 = "\<lparr>px = 2, py = 0\<rparr>" and i = 2
          and cps = "PlanarPoints [\<lparr>px = 0, py = 0\<rparr>, \<lparr>px = 1, py = 0\<rparr>, \<lparr>px = 2, py = 0\<rparr>]"]
  by (simp add: circum_D_def meterPoints_of_def)

lemma circum_D_repeat: "circum_D p p q = 0"
  by (simp add: circum_D_def Let_def algebra_simps)

text \<open>
  C10: for at least 2 circuit points, geodetic or planar, the first segment of
  \<open>buildSegments\<close>, pushed at the loop index 1 with the id \<open>seg-1\<close>, is of the type
  \<open>straight\<close> with the radius 0: its radius estimate takes the first point twice, and
  the determinant \<open>D\<close> of such a triple is 0.
\<close>

theorem first_segment_straight:
  assumes "2 \<le> num_points cps"
  shows "buildSegments cps \<noteq> [] \<and>
         buildSegments cps ! 0 = build_segment (meterPoints_of cps) 1 \<and>
         circum_D (meterPoints_of cps ! nat (max 0 (int 1 - 2))) (meterPoints_of cps ! (1 - 1))
           (meterPoints_of cps ! 1) = 0 \<and>
         seg_id (buildSegments cps ! 0) = ''seg-1'' \<and>
         seg_type (buildSegments cps ! 0) = ''straight'' \<and>
         radius (buildSegments cps ! 0) = 0"
proof -
  from assms have ne: "buildSegments cps \<noteq> []"
    by (simp add: buildSegments_def Let_def length_meterPoints_of)
  from assms have nth: "buildSegments cps ! 0 = build_segment (meterPoints_of cps) 1"
    using buildSegments_nth [of 1 cps] by simp
  have d: "circum_D (meterPoints_of cps ! nat (max 0 (int 1 - 2))) (meterPoints_of cps ! (1 - 1))
           (meterPoints_of cps ! 1) = 0"
    by (simp add: circum_D_repeat)
  then have "seg_type (build_segment (meterPoints_of cps) 1) = ''straight'' \<and>
             radius (build_segment (meterPoints_of cps) 1) = 0"
    using build_segment_degenerate [of "meterPoints_of cps" 1] by simp
  moreover have "seg_id (build_segment (meterPoints_of cps) 1) = ''seg-1''"
    by (simp add: build_segment_def Let_def string_of_nat_1)
  ultimately show ?thesis using ne nth d by simp
qed

theorem first_segment_straight_witness:
  "2 \<le> num_points (PlanarPoints [\<lparr>px = 0, py = 0\<rparr>, \<lparr>px = 1, py = 0\<rparr>, \<lparr>px = 1, py = 1\<rparr>]) \<and>
   seg_type (buildSegments
      (PlanarPoints [\<lparr>px = 0, py = 0\<rparr>, \<lparr>px = 1, py = 0\<rparr>, \<lparr>px = 1, py = 1\<rparr>]) ! 0) = ''straight'' \<and>
   radius (buildSegments
      (PlanarPoints [\<lparr>px = 0, py = 0\<rparr>, \<lparr>px = 1, py = 0\<rparr>, \<lparr>px = 1, py = 1\<rparr>]) ! 0) = 0 \<and>
   seg_id (buildSegments
      (PlanarPoints [\<lparr>px = 0, py = 0\<rparr>, \<lparr>px = 1, py = 0\<rparr>, \<lparr>px = 1, py = 1\<rparr>]) ! 0) = ''seg-1''"
proof -
  have h: "2 \<le> num_points (PlanarPoints [\<lparr>px = 0, py = 0\<rparr>, \<lparr>px = 1, py = 0\<rparr>, \<lparr>px = 1, py = 1\<rparr>])"
    by simp
  from first_segment_straight [OF h] h show ?thesis by blast
qed

section \<open>The speed factor of the spline points\<close>

lemma folded_angle_nonneg:
  "0 \<le> (if \<bar>atan2 a b - atan2 c d\<bar> > pi then 2 * pi - \<bar>atan2 a b - atan2 c d\<bar>
         else \<bar>atan2 a b - atan2 c d\<bar>)"
proof -
  have "- pi < atan2 a b" "atan2 a b \<le> pi" "- pi < atan2 c d" "atan2 c d \<le> pi"
    using atan2_bounds by simp_all
  then have "\<bar>atan2 a b - atan2 c d\<bar> < 2 * pi" by linarith
  then show ?thesis by simp
qed

lemma curvature_nonneg:
  assumes "\<forall>p \<in> set sps. has_tangent p"
  shows "\<exists>k. curvature_at sps i = Some k \<and> 0 \<le> k"
proof (cases "i > 0 \<and> i < length sps - 1")
  case False
  then show ?thesis by (auto simp add: curvature_at_def)
next
  case True
  then have "i - 1 < length sps" and "i < length sps" by linarith+
  then have "sps ! (i - 1) \<in> set sps" and "sps ! i \<in> set sps" by (simp_all only: nth_mem)
  with assms have "has_tangent (sps ! (i - 1))" and "has_tangent (sps ! i)" by blast+
  then obtain a b c d where
    t: "sp_dy (sps ! (i - 1)) = Some a" "sp_dx (sps ! (i - 1)) = Some b"
       "sp_dy (sps ! i) = Some c" "sp_dx (sps ! i) = Some d"
    by (auto simp add: has_tangent_def)
  from True t have "curvature_at sps i =
      Some ((if \<bar>atan2 a b - atan2 c d\<bar> > pi then 2 * pi - \<bar>atan2 a b - atan2 c d\<bar>
             else \<bar>atan2 a b - atan2 c d\<bar>) * 10)"
    by (simp add: curvature_at_def Let_def)
  moreover have "0 \<le> (if \<bar>atan2 a b - atan2 c d\<bar> > pi then 2 * pi - \<bar>atan2 a b - atan2 c d\<bar>
             else \<bar>atan2 a b - atan2 c d\<bar>) * 10"
    using folded_angle_nonneg [of a b c d] by (rule mult_nonneg_nonneg) simp
  ultimately show ?thesis by blast
qed

lemma speed_of_in_range:
  assumes "0 \<le> k"
  shows "speed_in_range (p\<lparr>speed := speed_of (Some k)\<rparr>)"
  using assms by (simp add: speed_in_range_def speed_of_def min_def double_0_8_def)

lemma assigned_speed_in_range:
  assumes "\<forall>p \<in> set sps. has_tangent p"
  shows "speed_in_range ((sps ! i)\<lparr>speed := speed_of (curvature_at sps i)\<rparr>)"
proof -
  from curvature_nonneg [OF assms, of i] obtain k where "curvature_at sps i = Some k" "0 \<le> k"
    by blast
  then show ?thesis by (simp add: speed_of_in_range)
qed

lemma assign_speeds_in_range:
  assumes "\<forall>p \<in> set sps. has_tangent p"
  shows "\<forall>q \<in> set (assign_speeds sps). speed_in_range q"
  using assigned_speed_in_range [OF assms] by (auto simp add: assign_speeds_def)

lemma assign_speeds_mixed_in_range:
  assumes "\<forall>p \<in> set sps. has_tangent p"
  shows "\<forall>q \<in> set (assign_speeds_mixed sps). speed_in_range q"
proof
  fix q
  assume "q \<in> set (assign_speeds_mixed sps)"
  then obtain i where i: "i < length sps"
    and q: "q = (if speed (sps ! i) = Some 1.0 then sps ! i
                 else (sps ! i)\<lparr>speed := speed_of (curvature_at sps i)\<rparr>)"
    by (auto simp add: assign_speeds_mixed_def Let_def)
  show "speed_in_range q"
  proof (cases "speed (sps ! i) = Some 1.0")
    case True
    with q show ?thesis by (simp add: speed_in_range_def double_0_8_def)
  next
    case False
    with q show ?thesis using assigned_speed_in_range [OF assms, of i] by simp
  qed
qed

lemma length_assign_speeds: "length (assign_speeds sps) = length sps"
  by (simp add: assign_speeds_def)

lemma spline_sample_tangent: "has_tangent (spline_sample p0 p1 p2 p3 t segments)"
  by (simp add: spline_sample_def has_tangent_def Let_def)

lemma straight_samples_tangent: "\<forall>q \<in> set (straight_samples p1 p2 i). has_tangent q"
  by (auto simp add: straight_samples_def has_tangent_def Let_def)

lemma spread_point_in_range:
  "1 - double_0_8 \<le> s \<Longrightarrow> s \<le> 1 \<Longrightarrow> speed_in_range (spread_point p s a)"
  by (simp add: spread_point_def speed_in_range_def)

lemma or_zero_in_range:
  assumes "speed_in_range q"
  shows "1 - double_0_8 \<le> or_zero (speed q) \<and> or_zero (speed q) \<le> 1"
  using assms
  by (auto simp add: speed_in_range_def or_zero_def double_0_8_def split: option.splits)

lemma end_point_in_range:
  assumes "sps \<noteq> []" and "\<forall>q \<in> set sps. speed_in_range q"
  shows "speed_in_range (spread_point p
           (or_zero (if sps = [] then None else speed (sps ! (length sps - 1)))) a)"
proof -
  from assms(1) have "sps ! (length sps - 1) \<in> set sps" by simp
  with assms(2) have "speed_in_range (sps ! (length sps - 1))" by blast
  then show ?thesis
    using assms(1) or_zero_in_range spread_point_in_range by simp
qed

lemma short_path_in_range:
  "\<forall>q \<in> set (map (\<lambda>p. spread_point p 1.0 None) points). speed_in_range q"
  by (simp add: spread_point_in_range double_0_8_def)

lemma concat_map_all:
  assumes "\<And>i. i \<in> set xs \<Longrightarrow> \<forall>q \<in> set (f i). P q"
  shows "\<forall>q \<in> set (concat (map f xs)). P q"
  using assms by auto

lemma concat_map_nonempty:
  assumes "i \<in> set xs" and "f i \<noteq> []"
  shows "concat (map f xs) \<noteq> []"
  using assms by auto

lemma spline_span_tangent:
  "\<forall>q \<in> set (map (\<lambda>t. spline_sample p0 p1 p2 p3 t segments) ts). has_tangent q"
  by (simp add: spline_sample_tangent)

lemma getSplinePoints_in_range:
  assumes "1 \<le> segments \<or> c \<or> length points < 2"
  shows "\<forall>q \<in> set (getSplinePoints points segments c). speed_in_range q"
proof (cases "length points < 2")
  case True
  then have "getSplinePoints points segments c = map (\<lambda>p. spread_point p 1.0 None) points"
    unfolding getSplinePoints_def by (simp only: if_True)
  then show ?thesis
    using short_path_in_range by simp
next
  case False
  define n where "n = length points"
  define pts where "pts = (if c
                    then [points ! (n - 2), points ! (n - 1)] @ points @ [points ! 0, points ! 1]
                    else [points ! 0] @ points @ [points ! (n - 1)])"
  define span where "span = (\<lambda>i.
                 map (\<lambda>t. spline_sample (pts ! (i - 1)) (pts ! i) (pts ! (i + 1)) (pts ! (i + 2))
                            t segments) [0..<segments])"
  define sps where "sps = concat (map span [1..<length pts - 2])"
  have unfold: "getSplinePoints points segments c =
      (if \<not> c then
         assign_speeds sps @
           [spread_point (points ! (n - 1))
              (or_zero (if assign_speeds sps = [] then None
                        else speed (assign_speeds sps ! (length (assign_speeds sps) - 1))))
              (Some 0)]
       else assign_speeds sps)"
    unfolding getSplinePoints_def sps_def span_def pts_def n_def
    using False by (simp only: if_False Let_def)
  have "\<forall>p \<in> set sps. has_tangent p"
    unfolding sps_def
  proof (rule concat_map_all)
    fix i
    show "\<forall>q \<in> set (span i). has_tangent q"
      unfolding span_def by (rule spline_span_tangent)
  qed
  then have ranged: "\<forall>q \<in> set (assign_speeds sps). speed_in_range q"
    by (rule assign_speeds_in_range)
  show ?thesis
  proof (cases c)
    case True
    with unfold have "getSplinePoints points segments c = assign_speeds sps"
      by (simp only: not_True_eq_False if_False)
    with ranged show ?thesis by (simp only:)
  next
    case open_path: False
    with assms \<open>\<not> length points < 2\<close> have seg: "1 \<le> segments" by blast
    from open_path have "pts = [points ! 0] @ points @ [points ! (n - 1)]"
      unfolding pts_def by (simp only: if_False)
    then have "length pts = n + 2"
      by (simp add: n_def)
    moreover from \<open>\<not> length points < 2\<close> have "2 \<le> n"
      by (simp add: n_def)
    ultimately have "1 \<in> set [1..<length pts - 2]" by simp
    moreover from seg have "span 1 \<noteq> []"
      unfolding span_def by simp
    ultimately have "sps \<noteq> []"
      unfolding sps_def by (rule concat_map_nonempty)
    then have "assign_speeds sps \<noteq> []"
      using length_assign_speeds [of sps] by auto
    then have last_ok: "speed_in_range (spread_point (points ! (n - 1))
              (or_zero (if assign_speeds sps = [] then None
                        else speed (assign_speeds sps ! (length (assign_speeds sps) - 1))))
              (Some 0))"
      using ranged by (rule end_point_in_range)
    from unfold open_path have "getSplinePoints points segments c =
         assign_speeds sps @
           [spread_point (points ! (n - 1))
              (or_zero (if assign_speeds sps = [] then None
                        else speed (assign_speeds sps ! (length (assign_speeds sps) - 1))))
              (Some 0)]"
      by (simp only: not_False_eq_True if_True)
    with ranged last_ok show ?thesis
      by (simp only: set_append Un_iff list.set ball_Un ball_simps insert_iff empty_iff)
  qed
qed

lemma getSplinePoints_no_samples:
  assumes "2 \<le> length points"
  shows "getSplinePoints points 0 False =
           [spread_point (points ! (length points - 1)) 0 (Some 0)]"
  using assms by (simp add: getSplinePoints_def Let_def assign_speeds_def or_zero_def)

lemma getSplinePoints_mixed_in_range:
  "\<forall>q \<in> set (getSplinePoints_mixed points segments c). speed_in_range q"
proof (cases "length points < 2")
  case True
  then show ?thesis
    using short_path_in_range by (simp add: getSplinePoints_mixed_def)
next
  case False
  define lp where "lp = (if c then points @ [points ! 0] else points)"
  define sps where "sps = concat (map (\<lambda>i.
                 (let p1 = lp ! i;
                      p2 = lp ! (i + 1)
                  in if ptype p1 = Some ''straight'' then straight_samples p1 p2 i
                     else
                       (let p0 = (if i > 0 then lp ! (i - 1)
                                  else if c then lp ! (length lp - 2)
                                  else p1);
                            p3 = (if i < length lp - 2 then lp ! (i + 2)
                                  else if c then lp ! 1
                                  else p2)
                        in map (\<lambda>t. spline_sample p0 p1 p2 p3 t segments) [0..<segments])))
               [0..<length lp - 1])"
  have unfold: "getSplinePoints_mixed points segments c = assign_speeds_mixed sps"
    using False unfolding getSplinePoints_mixed_def sps_def lp_def by (simp add: Let_def)
  have "\<forall>p \<in> set sps. has_tangent p"
    using straight_samples_tangent
    by (auto simp add: sps_def Let_def spline_sample_tangent)
  then show ?thesis
    unfolding unfold by (rule assign_speeds_mixed_in_range)
qed

text \<open>
  C5, as the code has it: every point that the Catmull-Rom generator returns has a
  speed factor between \<open>1.0 - 0.8\<close>, the double that prints as
  \<open>0.19999999999999996\<close>, and \<open>1.0\<close>, when the subdivision count is at least 1, or
  the path is closed, or there are fewer than 2 control points. With the subdivision
  count 0 on an open path of at least 2 control points it returns the last control
  point alone, with the speed factor 0. Every point that the generator with segment
  types returns has a speed factor between \<open>1.0 - 0.8\<close> and \<open>1.0\<close>, for every input,
  every subdivision count and both values of the closed flag.
\<close>

theorem spline_speed_range:
  "((1 \<le> segments \<or> c \<or> length points < 2) \<longrightarrow>
      (\<forall>q \<in> set (getSplinePoints points segments c). speed_in_range q)) \<and>
   (2 \<le> length points \<longrightarrow>
      getSplinePoints points 0 False = [spread_point (points ! (length points - 1)) 0 (Some 0)]) \<and>
   (\<forall>q \<in> set (getSplinePoints_mixed points segments c). speed_in_range q)"
proof (intro conjI impI)
  assume "1 \<le> segments \<or> c \<or> length points < 2"
  then show "\<forall>q \<in> set (getSplinePoints points segments c). speed_in_range q"
    by (rule getSplinePoints_in_range)
next
  assume "2 \<le> length points"
  then show "getSplinePoints points 0 False =
      [spread_point (points ! (length points - 1)) 0 (Some 0)]"
    by (rule getSplinePoints_no_samples)
next
  show "\<forall>q \<in> set (getSplinePoints_mixed points segments c). speed_in_range q"
    by (rule getSplinePoints_mixed_in_range)
qed

lemma least_speed_value:
  "1 - double_0_8 = 900719925474099 / 4503599627370496 \<and> 1 - double_0_8 < 0.2"
  by (simp add: double_0_8_def)

lemma getSplinePoints_two_open:
  "getSplinePoints [a, b] segments False =
     assign_speeds (map (\<lambda>t. spline_sample a a b b t segments) [0..<segments]) @
     [spread_point b
        (or_zero
          (if assign_speeds (map (\<lambda>t. spline_sample a a b b t segments) [0..<segments]) = []
           then None
           else speed (assign_speeds (map (\<lambda>t. spline_sample a a b b t segments) [0..<segments]) !
                  (length (assign_speeds (map (\<lambda>t. spline_sample a a b b t segments)
                     [0..<segments])) - 1))))
        (Some 0)]"
proof -
  have "[1..<length ([[a, b] ! 0] @ [a, b] @ [[a, b] ! (length [a, b] - 1)]) - 2] = [1]"
    by simp
  then show ?thesis
    unfolding getSplinePoints_def Let_def by simp
qed

lemma second_sample_speed:
  assumes "2 < segments"
  shows "speed (getSplinePoints [a, b] segments False ! 1) =
         speed_of (curvature_at (map (\<lambda>t. spline_sample a a b b t segments) [0..<segments]) 1)"
proof -
  from assms have "1 < length (assign_speeds (map (\<lambda>t. spline_sample a a b b t segments)
      [0..<segments]))"
    by (simp add: assign_speeds_def)
  then have "getSplinePoints [a, b] segments False ! 1 =
      assign_speeds (map (\<lambda>t. spline_sample a a b b t segments) [0..<segments]) ! 1"
    unfolding getSplinePoints_two_open by (simp only: nth_append if_True)
  also from assms have "\<dots> = (map (\<lambda>t. spline_sample a a b b t segments) [0..<segments] ! 1)
      \<lparr>speed := speed_of (curvature_at (map (\<lambda>t. spline_sample a a b b t segments)
         [0..<segments]) 1)\<rparr>"
    by (simp add: assign_speeds_def)
  finally show ?thesis by simp
qed

lemma sharp_start_curvature:
  "curvature_at (map (\<lambda>t. spline_sample \<lparr>px = 0, py = 0, ptype = None\<rparr> \<lparr>px = 0, py = 0, ptype = None\<rparr>
       \<lparr>px = 0, py = 1, ptype = None\<rparr> \<lparr>px = 0, py = 1, ptype = None\<rparr> t 24) [0..<24]) 1 = Some (5 * pi)"
proof -
  have s0: "spline_sample \<lparr>px = 0, py = 0, ptype = None\<rparr> \<lparr>px = 0, py = 0, ptype = None\<rparr>
       \<lparr>px = 0, py = 1, ptype = None\<rparr> \<lparr>px = 0, py = 1, ptype = None\<rparr> 0 24 =
     \<lparr>sp_x = 0, sp_y = 0, sp_dx = Some 0, sp_dy = Some 0, angle = Some 0, speed = None,
      sp_type = None\<rparr>"
    by (simp add: spline_sample_def)
  have s1: "sp_dx (spline_sample \<lparr>px = 0, py = 0, ptype = None\<rparr> \<lparr>px = 0, py = 0, ptype = None\<rparr>
       \<lparr>px = 0, py = 1, ptype = None\<rparr> \<lparr>px = 0, py = 1, ptype = None\<rparr> (Suc 0) 24) = Some 0 \<and>
     sp_dy (spline_sample \<lparr>px = 0, py = 0, ptype = None\<rparr> \<lparr>px = 0, py = 0, ptype = None\<rparr>
       \<lparr>px = 0, py = 1, ptype = None\<rparr> \<lparr>px = 0, py = 1, ptype = None\<rparr> (Suc 0) 24) = Some (31 / 192)"
    by (simp add: spline_sample_def Let_def)
  have a: "atan2 (31 / 192) 0 = pi / 2"
    by (simp add: atan2_def)
  have "(0::nat) < 24" "(1::nat) < 24" by simp_all
  then have n0: "map (\<lambda>t. spline_sample \<lparr>px = 0, py = 0, ptype = None\<rparr> \<lparr>px = 0, py = 0, ptype = None\<rparr>
       \<lparr>px = 0, py = 1, ptype = None\<rparr> \<lparr>px = 0, py = 1, ptype = None\<rparr> t 24) [0..<24] ! 0 =
       spline_sample \<lparr>px = 0, py = 0, ptype = None\<rparr> \<lparr>px = 0, py = 0, ptype = None\<rparr>
       \<lparr>px = 0, py = 1, ptype = None\<rparr> \<lparr>px = 0, py = 1, ptype = None\<rparr> 0 24"
    and n1: "map (\<lambda>t. spline_sample \<lparr>px = 0, py = 0, ptype = None\<rparr> \<lparr>px = 0, py = 0, ptype = None\<rparr>
       \<lparr>px = 0, py = 1, ptype = None\<rparr> \<lparr>px = 0, py = 1, ptype = None\<rparr> t 24) [0..<24] ! 1 =
       spline_sample \<lparr>px = 0, py = 0, ptype = None\<rparr> \<lparr>px = 0, py = 0, ptype = None\<rparr>
       \<lparr>px = 0, py = 1, ptype = None\<rparr> \<lparr>px = 0, py = 1, ptype = None\<rparr> 1 24"
    by simp_all
  have "pi / 2 \<le> pi" using pi_gt_zero by linarith
  then show ?thesis
    unfolding curvature_at_def
    using pi_gt_zero by (simp add: n0 n1 s0 s1 a Let_def)
qed

text \<open>
  Two control points, no subdivision, open path: the only point returned has the speed
  factor 0. Two control points one above the other, 24 subdivisions, open path: the
  tangent turns by a right angle from the first sample to the second, the curvature
  \<open>5\<pi>\<close> is cut to \<open>0.8\<close>, and the second sample has the speed factor
  \<open>1.0 - 0.8\<close>, which is below 0.2.
\<close>

theorem spline_speed_range_counterexample:
  "getSplinePoints [\<lparr>px = 0, py = 0, ptype = None\<rparr>, \<lparr>px = 1, py = 0, ptype = None\<rparr>] 0 False =
     [\<lparr>sp_x = 1, sp_y = 0, sp_dx = None, sp_dy = None, angle = Some 0, speed = Some 0,
       sp_type = None\<rparr>] \<and>
   speed (getSplinePoints [\<lparr>px = 0, py = 0, ptype = None\<rparr>, \<lparr>px = 0, py = 1, ptype = None\<rparr>] 24 False ! 1) =
     Some (900719925474099 / 4503599627370496) \<and>
   (900719925474099 / 4503599627370496 :: real) < 0.2"
proof -
  have "getSplinePoints [\<lparr>px = 0, py = 0, ptype = None\<rparr>, \<lparr>px = 1, py = 0, ptype = None\<rparr>] 0 False =
     [\<lparr>sp_x = 1, sp_y = 0, sp_dx = None, sp_dy = None, angle = Some 0, speed = Some 0,
       sp_type = None\<rparr>]"
    by (simp add: getSplinePoints_def Let_def assign_speeds_def or_zero_def spread_point_def)
  moreover have "speed (getSplinePoints [\<lparr>px = 0, py = 0, ptype = None\<rparr>, \<lparr>px = 0, py = 1, ptype = None\<rparr>]
      24 False ! 1) = Some (900719925474099 / 4503599627370496)"
  proof -
    have le: "double_0_8 \<le> 5 * pi"
      using pi_ge_two by (simp add: double_0_8_def)
    have "speed (getSplinePoints [\<lparr>px = 0, py = 0, ptype = None\<rparr>, \<lparr>px = 0, py = 1, ptype = None\<rparr>]
        24 False ! 1) =
      speed_of (curvature_at (map (\<lambda>t. spline_sample \<lparr>px = 0, py = 0, ptype = None\<rparr>
        \<lparr>px = 0, py = 0, ptype = None\<rparr> \<lparr>px = 0, py = 1, ptype = None\<rparr> \<lparr>px = 0, py = 1, ptype = None\<rparr>
        t 24) [0..<24]) 1)"
      by (rule second_sample_speed) simp
    also have "\<dots> = speed_of (Some (5 * pi))"
      by (simp only: sharp_start_curvature)
    also from le have "\<dots> = Some (1 - double_0_8)"
      by (simp add: speed_of_def min_def)
    also have "\<dots> = Some (900719925474099 / 4503599627370496)"
      by (simp add: double_0_8_def)
    finally show ?thesis .
  qed
  moreover have "(900719925474099 / 4503599627370496 :: real) < 0.2"
    by simp
  ultimately show ?thesis by (intro conjI)
qed

lemma getSplinePoints_example: "getSplinePoints [\<lparr>px = 0, py = 0, ptype = None\<rparr>, \<lparr>px = 1, py = 0, ptype = None\<rparr>] (Suc 0) False =
  [\<lparr>sp_x = 0, sp_y = 0, sp_dx = Some 0, sp_dy = Some 0, angle = Some 0, speed = Some 1,
       sp_type = None\<rparr>,
   \<lparr>sp_x = 1, sp_y = 0, sp_dx = None, sp_dy = None, angle = Some 0, speed = Some 1,
       sp_type = None\<rparr>]"
  by (simp add: getSplinePoints_def Let_def assign_speeds_def or_zero_def spread_point_def
      spline_sample_def curvature_at_def speed_of_def double_0_8_def)

lemma upt_0_5: "[0..<5] = [0, 1, 2, 3, 4]"
  by (simp add: upt_conv_Cons)

lemma getSplinePoints_mixed_example: "getSplinePoints_mixed [\<lparr>px = 0, py = 0, ptype = Some ''straight''\<rparr>, \<lparr>px = 10, py = 0, ptype = None\<rparr>] (Suc 0) False =
  [\<lparr>sp_x = 0, sp_y = 0, sp_dx = Some 10, sp_dy = Some 0, angle = Some 0, speed = Some 1, sp_type = None\<rparr>,
   \<lparr>sp_x = 2, sp_y = 0, sp_dx = Some 10, sp_dy = Some 0, angle = Some 0, speed = Some 1, sp_type = None\<rparr>,
   \<lparr>sp_x = 4, sp_y = 0, sp_dx = Some 10, sp_dy = Some 0, angle = Some 0, speed = Some 1, sp_type = None\<rparr>,
   \<lparr>sp_x = 6, sp_y = 0, sp_dx = Some 10, sp_dy = Some 0, angle = Some 0, speed = Some 1, sp_type = None\<rparr>,
   \<lparr>sp_x = 8, sp_y = 0, sp_dx = Some 10, sp_dy = Some 0, angle = Some 0, speed = Some 1, sp_type = None\<rparr>,
   \<lparr>sp_x = 10, sp_y = 0, sp_dx = Some 10, sp_dy = Some 0, angle = Some 0, speed = Some 1, sp_type = None\<rparr>]"
  by (simp add: getSplinePoints_mixed_def Let_def assign_speeds_mixed_def or_zero_def spread_point_def
      spline_sample_def curvature_at_def speed_of_def straight_samples_def upt_0_5
      double_0_8_def)

theorem spline_speed_range_witness:
  "(1::nat) \<le> 1 \<and>
   2 \<le> length [\<lparr>px = 0, py = 0, ptype = None\<rparr>, \<lparr>px = 1, py = 0, ptype = None\<rparr>] \<and>
   speed_in_range
     (getSplinePoints [\<lparr>px = 0, py = 0, ptype = None\<rparr>, \<lparr>px = 1, py = 0, ptype = None\<rparr>] 1 False ! 1) \<and>
   speed (getSplinePoints [\<lparr>px = 0, py = 0, ptype = None\<rparr>, \<lparr>px = 1, py = 0, ptype = None\<rparr>] 1 False ! 1)
     = Some 1 \<and>
   getSplinePoints [\<lparr>px = 0, py = 0, ptype = None\<rparr>, \<lparr>px = 1, py = 0, ptype = None\<rparr>] 0 False =
     [spread_point \<lparr>px = 1, py = 0, ptype = None\<rparr> 0 (Some 0)] \<and>
   speed_in_range
     (getSplinePoints_mixed
        [\<lparr>px = 0, py = 0, ptype = Some ''straight''\<rparr>, \<lparr>px = 10, py = 0, ptype = None\<rparr>] 1 False ! 5) \<and>
   sp_x (getSplinePoints_mixed
        [\<lparr>px = 0, py = 0, ptype = Some ''straight''\<rparr>, \<lparr>px = 10, py = 0, ptype = None\<rparr>] 1 False ! 5)
     = 10 \<and>
   (1::nat) \<le> 24 \<and>
   speed_in_range
     (getSplinePoints [\<lparr>px = 0, py = 0, ptype = None\<rparr>, \<lparr>px = 0, py = 1, ptype = None\<rparr>] 24 False ! 1)"
proof -
  have "length (getSplinePoints [\<lparr>px = 0, py = 0, ptype = None\<rparr>, \<lparr>px = 0, py = 1, ptype = None\<rparr>]
      24 False) = 25"
    unfolding getSplinePoints_two_open by (simp add: length_assign_speeds)
  then have mem: "getSplinePoints [\<lparr>px = 0, py = 0, ptype = None\<rparr>, \<lparr>px = 0, py = 1, ptype = None\<rparr>]
      24 False ! 1 \<in>
    set (getSplinePoints [\<lparr>px = 0, py = 0, ptype = None\<rparr>, \<lparr>px = 0, py = 1, ptype = None\<rparr>] 24 False)"
    by (intro nth_mem) simp
  have sharp: "speed_in_range
     (getSplinePoints [\<lparr>px = 0, py = 0, ptype = None\<rparr>, \<lparr>px = 0, py = 1, ptype = None\<rparr>] 24 False ! 1)"
    using spline_speed_range [where segments = 24 and c = False
          and points = "[\<lparr>px = 0, py = 0, ptype = None\<rparr>, \<lparr>px = 0, py = 1, ptype = None\<rparr>]"] mem
    by simp
  show ?thesis
    using sharp spline_speed_range [where segments = 1 and c = False
            and points = "[\<lparr>px = 0, py = 0, ptype = None\<rparr>, \<lparr>px = 1, py = 0, ptype = None\<rparr>]"]
          spline_speed_range [where segments = 1 and c = False
            and points = "[\<lparr>px = 0, py = 0, ptype = Some ''straight''\<rparr>, \<lparr>px = 10, py = 0, ptype = None\<rparr>]"]
    by (simp add: getSplinePoints_example getSplinePoints_mixed_example)
qed

end
